theory Spec2Isabelle
  imports Main
begin

section \<open>JavaScript values, objects and the store\<close>

text \<open>
  The class \<open>ApexFramework\<close> of \<open>src/index.ts\<close> holds a reference to a configuration
  object. Several properties of the class are about which object a reference points to,
  so objects live in an explicit store and are passed around by address.

  At run time the TypeScript types are erased: a field of a configuration is a string
  (the \<open>environment\<close> union is a union of string literals) or, since \<open>Partial\<close> admits
  it, \<open>undefined\<close>. Strings are byte strings, in the UTF-8 encoding of the source file.
\<close>

datatype val = Undefined | Str string

text \<open>An object is the finite map of its own enumerable properties.\<close>

type_synonym obj = "string \<rightharpoonup> val"

type_synonym addr = nat

text \<open>
  The store: the allocated objects, an address being an index into the list, and the
  lines written to the console so far, oldest first.
\<close>

record world =
  heap :: "obj list"
  console :: "string list"

text \<open>Property read \<open>o.f\<close>: a missing property reads as \<open>undefined\<close>.\<close>

definition get_prop :: "obj \<Rightarrow> string \<Rightarrow> val" where
  "get_prop ob f = (case ob f of None \<Rightarrow> Undefined | Some v \<Rightarrow> v)"

text \<open>String conversion of a value inside a template literal.\<close>

fun to_string :: "val \<Rightarrow> string" where
  "to_string Undefined = ''undefined''"
| "to_string (Str s) = s"

text \<open>
  The object literal \<open>{ ...a, ...b }\<close>: starting from the empty object, the own properties
  of each operand are copied in turn, a later one overwriting an earlier one of the same
  name. A property that is present with the value \<open>undefined\<close> is copied like any other.
\<close>

definition spread :: "obj list \<Rightarrow> obj" where
  "spread obs = foldl (++) Map.empty obs"

text \<open>Evaluating an object literal allocates a fresh object and yields its address.\<close>

definition new_object :: "obj \<Rightarrow> world \<Rightarrow> addr \<times> world" where
  "new_object ob w = (length (heap w), w\<lparr>heap := heap w @ [ob]\<rparr>)"

definition console_log :: "string \<Rightarrow> world \<Rightarrow> world" where
  "console_log line w = w\<lparr>console := console w @ [line]\<rparr>"

text \<open>
  What a caller holding a reference can do to the object behind it: any change in place
  (\<open>mutate\<close>), of which the assignment \<open>o.f = v\<close> is one.
\<close>

definition mutate :: "addr \<Rightarrow> (obj \<Rightarrow> obj) \<Rightarrow> world \<Rightarrow> world" where
  "mutate a g w = w\<lparr>heap := (heap w)[a := g (heap w ! a)]\<rparr>"

definition assign :: "addr \<Rightarrow> string \<Rightarrow> val \<Rightarrow> world \<Rightarrow> world" where
  "assign a f v w = mutate a (\<lambda>ob. ob(f \<mapsto> v)) w"

section \<open>The class ApexFramework\<close>

text \<open>The instance has one private field, the reference \<open>config\<close>.\<close>

record ApexFramework =
  config :: addr

text \<open>\<open>constructor(config) { this.config = config; }\<close>\<close>

definition new_ApexFramework :: "addr \<Rightarrow> ApexFramework" where
  "new_ApexFramework cfg = \<lparr>config = cfg\<rparr>"

text \<open>The three emoji that open the lines of \<open>initialize\<close>, as UTF-8 bytes.\<close>

definition rocket :: string where
  "rocket = [CHR 0xF0, CHR 0x9F, CHR 0x9A, CHR 0x80]"

definition clipboard :: string where
  "clipboard = [CHR 0xF0, CHR 0x9F, CHR 0x93, CHR 0x8B]"

definition globe :: string where
  "globe = [CHR 0xF0, CHR 0x9F, CHR 0x8C, CHR 0x8D]"

text \<open>The read \<open>this.config.f\<close>.\<close>

definition this_config :: "ApexFramework \<Rightarrow> world \<Rightarrow> string \<Rightarrow> val" where
  "this_config this w f = get_prop (heap w ! config this) f"

definition initialize :: "ApexFramework \<Rightarrow> world \<Rightarrow> world" where
  "initialize this w =
     (let w1 = console_log (rocket @ '' APEX Enhanced Framework v''
                             @ to_string (this_config this w ''version'') @ '' initialized'') w;
          w2 = console_log (clipboard @ '' Project: ''
                             @ to_string (this_config this w1 ''name'')) w1
      in console_log (globe @ '' Environment: ''
                             @ to_string (this_config this w2 ''environment'')) w2)"

text \<open>\<open>return { ...this.config };\<close>\<close>

definition getConfig :: "ApexFramework \<Rightarrow> world \<Rightarrow> addr \<times> world" where
  "getConfig this w = new_object (spread [heap w ! config this]) w"

text \<open>\<open>this.config = { ...this.config, ...updates };\<close>\<close>

definition updateConfig :: "ApexFramework \<Rightarrow> addr \<Rightarrow> world \<Rightarrow> ApexFramework \<times> world" where
  "updateConfig this updates w =
     (let (a, w') = new_object (spread [heap w ! config this, heap w ! updates]) w
      in (this\<lparr>config := a\<rparr>, w'))"

text \<open>\<open>createApexFramework(config)\<close> returns \<open>new ApexFramework(config)\<close>.\<close>

definition createApexFramework :: "addr \<Rightarrow> ApexFramework" where
  "createApexFramework cfg = new_ApexFramework cfg"

section \<open>Example objects\<close>

definition test_project_config :: obj where
  "test_project_config =
     [''name'' \<mapsto> Str ''Test Project'', ''version'' \<mapsto> Str ''1.0.0'',
      ''environment'' \<mapsto> Str ''test'']"

definition factory_config :: obj where
  "factory_config =
     [''name'' \<mapsto> Str ''Factory Test'', ''version'' \<mapsto> Str ''1.0.0'',
      ''environment'' \<mapsto> Str ''development'']"

definition updated_partial :: obj where
  "updated_partial = [''name'' \<mapsto> Str ''Updated Project'', ''version'' \<mapsto> Str ''2.0.0'']"

definition updated_config :: obj where
  "updated_config =
     [''name'' \<mapsto> Str ''Updated Project'', ''version'' \<mapsto> Str ''2.0.0'',
      ''environment'' \<mapsto> Str ''development'']"

definition undefined_name_partial :: obj where
  "undefined_name_partial = [''name'' \<mapsto> Undefined]"

section \<open>Basic facts about the store\<close>

lemma spread_one: "spread [a] = a"
  by (simp add: spread_def)

lemma spread_two: "spread [a, b] = a ++ b"
  by (simp add: spread_def)

lemma getConfig_result:
  "getConfig this w = (length (heap w), w\<lparr>heap := heap w @ [heap w ! config this]\<rparr>)"
  by (simp add: getConfig_def new_object_def spread_one)

lemma updateConfig_result:
  "updateConfig this updates w =
     (this\<lparr>config := length (heap w)\<rparr>,
      w\<lparr>heap := heap w @ [(heap w ! config this) ++ (heap w ! updates)]\<rparr>)"
  by (simp add: updateConfig_def new_object_def spread_two)

lemma initialize_heap: "heap (initialize this w) = heap w"
  by (simp add: initialize_def console_log_def Let_def)

lemma factory_merge: "factory_config ++ updated_partial = updated_config"
  by (rule ext) (simp add: factory_config_def updated_partial_def updated_config_def map_add_def)

section \<open>updateConfig\<close>

text \<open>
  C1. After \<open>updateConfig(p)\<close> the stored configuration, as \<open>getConfig()\<close> returns it, is
  the field-wise merge of the previous configuration and \<open>p\<close>: a field present in \<open>p\<close> has
  the value given in \<open>p\<close>, a field absent from \<open>p\<close> keeps its prior value.
\<close>

theorem updateConfig_fieldwise_merge:
  assumes "config this < length (heap w)" and "updates < length (heap w)"
    and "updateConfig this updates w = (this', w1)"
    and "getConfig this' w1 = (r, w2)"
  shows "(heap w2 ! r) f =
           (case (heap w ! updates) f of
              Some v \<Rightarrow> Some v
            | None \<Rightarrow> (heap w ! config this) f)"
proof -
  from assms(3) have this': "config this' = length (heap w)"
    and w1: "heap w1 = heap w @ [(heap w ! config this) ++ (heap w ! updates)]"
    by (auto simp: updateConfig_result)
  from assms(4) have "heap w2 ! r = heap w1 ! config this'"
    by (auto simp: getConfig_result)
  with this' w1 have "heap w2 ! r = (heap w ! config this) ++ (heap w ! updates)"
    by simp
  then show ?thesis
    by (simp add: map_add_def)
qed

text \<open>
  The instance of C1 that the specification gives: constructing with
  \<open>{name: "Factory Test", version: "1.0.0", environment: "development"}\<close> and calling
  \<open>updateConfig({name: "Updated Project", version: "2.0.0"})\<close> makes \<open>getConfig()\<close> return
  \<open>{name: "Updated Project", version: "2.0.0", environment: "development"}\<close>.
\<close>

theorem updateConfig_fieldwise_merge_witness:
  "updateConfig (createApexFramework 0) 1 \<lparr>heap = [factory_config, updated_partial], console = []\<rparr>
     = (\<lparr>config = 2\<rparr>,
        \<lparr>heap = [factory_config, updated_partial, updated_config], console = []\<rparr>)
   \<and> getConfig \<lparr>config = 2\<rparr>
        \<lparr>heap = [factory_config, updated_partial, updated_config], console = []\<rparr>
     = (3, \<lparr>heap = [factory_config, updated_partial, updated_config, updated_config],
              console = []\<rparr>)
   \<and> updated_config ''name'' = Some (Str ''Updated Project'')
   \<and> updated_config ''version'' = Some (Str ''2.0.0'')
   \<and> updated_config ''environment'' = Some (Str ''development'')"
proof -
  let ?w = "\<lparr>heap = [factory_config, updated_partial], console = []\<rparr>"
  let ?wa = "\<lparr>heap = [factory_config, updated_partial, updated_config], console = []\<rparr>"
  let ?wb = "\<lparr>heap = [factory_config, updated_partial, updated_config, updated_config],
              console = []\<rparr>"
  have u: "updateConfig (createApexFramework 0) 1 ?w = (\<lparr>config = 2\<rparr>, ?wa)"
    by (simp add: updateConfig_result createApexFramework_def new_ApexFramework_def
        factory_merge)
  have g: "getConfig \<lparr>config = 2\<rparr> ?wa = (3, ?wb)"
    by (simp add: getConfig_result)
  have m: "(heap ?wb ! 3) f =
             (case (heap ?w ! 1) f of
                Some v \<Rightarrow> Some v
              | None \<Rightarrow> (heap ?w ! config (createApexFramework 0)) f)" for f
    using updateConfig_fieldwise_merge [of "createApexFramework 0" ?w 1 "\<lparr>config = 2\<rparr>" ?wa 3 ?wb f]
      u g
    by (simp add: createApexFramework_def new_ApexFramework_def)
  from m [of "''name''"] m [of "''version''"] m [of "''environment''"] u g
  show ?thesis
    by (simp add: createApexFramework_def new_ApexFramework_def
        factory_config_def updated_partial_def)
qed

text \<open>
  C6. \<open>updateConfig({})\<close>, the partial with no field present, leaves the stored
  configuration unchanged: \<open>getConfig()\<close> after the call equals \<open>getConfig()\<close> before it.
\<close>

theorem updateConfig_empty_unchanged:
  assumes "config this < length (heap w)" and "updates < length (heap w)"
    and "heap w ! updates = Map.empty"
    and "getConfig this w = (r0, w0)"
    and "updateConfig this updates w0 = (this', w1)"
    and "getConfig this' w1 = (r1, w2)"
  shows "heap w2 ! r1 = heap w2 ! r0"
proof -
  from assms(4) have r0: "r0 = length (heap w)"
    and w0: "heap w0 = heap w @ [heap w ! config this]"
    by (auto simp: getConfig_result)
  from assms(5) have this': "config this' = length (heap w0)"
    and w1: "heap w1 = heap w0 @ [(heap w0 ! config this) ++ (heap w0 ! updates)]"
    by (auto simp: updateConfig_result)
  from assms(6) have r1: "r1 = length (heap w1)"
    and w2: "heap w2 = heap w1 @ [heap w1 ! config this']"
    by (auto simp: getConfig_result)
  from assms(1,2,3) w0 have "(heap w0 ! config this) ++ (heap w0 ! updates) = heap w ! config this"
    by (simp add: nth_append)
  with r0 r1 this' w0 w1 w2 show ?thesis
    by (simp add: nth_append)
qed

theorem updateConfig_empty_unchanged_witness:
  "getConfig (createApexFramework 0) \<lparr>heap = [factory_config, Map.empty], console = []\<rparr>
     = (2, \<lparr>heap = [factory_config, Map.empty, factory_config], console = []\<rparr>)
   \<and> updateConfig (createApexFramework 0) 1
        \<lparr>heap = [factory_config, Map.empty, factory_config], console = []\<rparr>
     = (\<lparr>config = 3\<rparr>,
        \<lparr>heap = [factory_config, Map.empty, factory_config, factory_config], console = []\<rparr>)
   \<and> getConfig \<lparr>config = 3\<rparr>
        \<lparr>heap = [factory_config, Map.empty, factory_config, factory_config], console = []\<rparr>
     = (4, \<lparr>heap = [factory_config, Map.empty, factory_config, factory_config, factory_config],
              console = []\<rparr>)
   \<and> [factory_config, Map.empty, factory_config, factory_config, factory_config] ! 4
     = [factory_config, Map.empty, factory_config, factory_config, factory_config] ! 2"
proof -
  let ?w = "\<lparr>heap = [factory_config, Map.empty], console = []\<rparr>"
  let ?wa = "\<lparr>heap = [factory_config, Map.empty, factory_config], console = []\<rparr>"
  let ?wb = "\<lparr>heap = [factory_config, Map.empty, factory_config, factory_config],
              console = []\<rparr>"
  let ?wc = "\<lparr>heap = [factory_config, Map.empty, factory_config, factory_config,
                      factory_config], console = []\<rparr>"
  have g0: "getConfig (createApexFramework 0) ?w = (2, ?wa)"
    by (simp add: getConfig_result createApexFramework_def new_ApexFramework_def)
  have u: "updateConfig (createApexFramework 0) 1 ?wa = (\<lparr>config = 3\<rparr>, ?wb)"
    by (simp add: updateConfig_result createApexFramework_def new_ApexFramework_def)
  have g1: "getConfig \<lparr>config = 3\<rparr> ?wb = (4, ?wc)"
    by (simp add: getConfig_result)
  have "heap ?wc ! 4 = heap ?wc ! 2"
    using updateConfig_empty_unchanged
      [of "createApexFramework 0" ?w 1 2 ?wa "\<lparr>config = 3\<rparr>" ?wb 4 ?wc] g0 u g1
    by (simp add: createApexFramework_def new_ApexFramework_def)
  with g0 u g1 show ?thesis
    by simp
qed

text \<open>
  C8. \<open>updateConfig(p)\<close> changes the stored configuration only. It writes nothing to the
  console, so it does not run \<open>initialize\<close>, which always makes the console three lines
  longer. In the store it allocates one object, the merged configuration, to which the
  holder's \<open>config\<close> then refers; every object that was there before the call, the
  caller's partial and the previous configuration among them, is as it was.
\<close>

theorem updateConfig_mutates_config_only:
  "console (snd (updateConfig this updates w)) = console w
   \<and> length (console (initialize this w)) = length (console w) + 3
   \<and> take (length (heap w)) (heap (snd (updateConfig this updates w))) = heap w
   \<and> length (heap (snd (updateConfig this updates w))) = Suc (length (heap w))
   \<and> config (fst (updateConfig this updates w)) = length (heap w)
   \<and> heap (snd (updateConfig this updates w)) ! config (fst (updateConfig this updates w))
     = (heap w ! config this) ++ (heap w ! updates)"
  by (simp add: updateConfig_result initialize_def console_log_def Let_def)

text \<open>
  C10. A field that is present in the partial with the value \<open>undefined\<close> overwrites the
  stored field: after such an \<open>updateConfig\<close>, \<open>getConfig()\<close> returns a configuration in
  which that field is present and reads \<open>undefined\<close>, whatever its prior value was.
\<close>

theorem updateConfig_undefined_overwrites:
  assumes "config this < length (heap w)" and "updates < length (heap w)"
    and "(heap w ! updates) f = Some Undefined"
    and "updateConfig this updates w = (this', wa)"
    and "getConfig this' wa = (r, wb)"
  shows "(heap wb ! r) f = Some Undefined \<and> get_prop (heap wb ! r) f = Undefined"
proof -
  from assms(4) have this': "config this' = length (heap w)"
    and wa: "heap wa = heap w @ [(heap w ! config this) ++ (heap w ! updates)]"
    by (auto simp: updateConfig_result)
  from assms(5) have "heap wb ! r = heap wa ! config this'"
    by (auto simp: getConfig_result)
  with this' wa have "heap wb ! r = (heap w ! config this) ++ (heap w ! updates)"
    by simp
  with assms(3) show ?thesis
    by (simp add: get_prop_def)
qed

text \<open>
  The example of C10: the holder of the \<open>Factory Test\<close> configuration, whose name is a
  string, after \<open>updateConfig({name: undefined})\<close>.
\<close>

theorem updateConfig_undefined_overwrites_witness:
  "get_prop factory_config ''name'' = Str ''Factory Test''
   \<and> updateConfig (createApexFramework 0) 1
        \<lparr>heap = [factory_config, undefined_name_partial], console = []\<rparr>
     = (\<lparr>config = 2\<rparr>,
        \<lparr>heap = [factory_config, undefined_name_partial,
                 factory_config ++ undefined_name_partial], console = []\<rparr>)
   \<and> getConfig \<lparr>config = 2\<rparr>
        \<lparr>heap = [factory_config, undefined_name_partial,
                 factory_config ++ undefined_name_partial], console = []\<rparr>
     = (3, \<lparr>heap = [factory_config, undefined_name_partial,
                      factory_config ++ undefined_name_partial,
                      factory_config ++ undefined_name_partial], console = []\<rparr>)
   \<and> (factory_config ++ undefined_name_partial) ''name'' = Some Undefined
   \<and> get_prop (factory_config ++ undefined_name_partial) ''name'' = Undefined"
proof -
  let ?m = "factory_config ++ undefined_name_partial"
  let ?w = "\<lparr>heap = [factory_config, undefined_name_partial], console = []\<rparr>"
  let ?wa = "\<lparr>heap = [factory_config, undefined_name_partial, ?m], console = []\<rparr>"
  let ?wb = "\<lparr>heap = [factory_config, undefined_name_partial, ?m, ?m], console = []\<rparr>"
  have p: "get_prop factory_config ''name'' = Str ''Factory Test''"
    by (simp add: get_prop_def factory_config_def)
  have u: "updateConfig (createApexFramework 0) 1 ?w = (\<lparr>config = 2\<rparr>, ?wa)"
    by (simp add: updateConfig_result createApexFramework_def new_ApexFramework_def)
  have g: "getConfig \<lparr>config = 2\<rparr> ?wa = (3, ?wb)"
    by (simp add: getConfig_result)
  have "(heap ?wb ! 3) ''name'' = Some Undefined
        \<and> get_prop (heap ?wb ! 3) ''name'' = Undefined"
    using updateConfig_undefined_overwrites
      [of "createApexFramework 0" ?w 1 "''name''" "\<lparr>config = 2\<rparr>" ?wa 3 ?wb] u g
    by (simp add: createApexFramework_def new_ApexFramework_def undefined_name_partial_def)
  with p u g show ?thesis
    by simp
qed

section \<open>getConfig\<close>

text \<open>
  C2. Constructing a holder with a configuration \<open>c\<close> and calling \<open>getConfig()\<close> at once
  returns an object equal to \<open>c\<close> by value: the same properties with the same values, so
  in particular the same \<open>name\<close>, \<open>version\<close> and \<open>environment\<close>.
\<close>

theorem construct_getConfig_equal:
  assumes "c < length (heap w)"
    and "getConfig (createApexFramework c) w = (r, wa)"
  shows "heap wa ! r = heap wa ! c
         \<and> get_prop (heap wa ! r) ''name'' = get_prop (heap w ! c) ''name''
         \<and> get_prop (heap wa ! r) ''version'' = get_prop (heap w ! c) ''version''
         \<and> get_prop (heap wa ! r) ''environment'' = get_prop (heap w ! c) ''environment''"
proof -
  from assms(2) have "r = length (heap w)" and "heap wa = heap w @ [heap w ! c]"
    by (auto simp: getConfig_result createApexFramework_def new_ApexFramework_def)
  with assms(1) show ?thesis
    by (simp add: nth_append)
qed

theorem construct_getConfig_equal_witness:
  "getConfig (createApexFramework 0) \<lparr>heap = [test_project_config], console = []\<rparr>
     = (1, \<lparr>heap = [test_project_config, test_project_config], console = []\<rparr>)
   \<and> [test_project_config, test_project_config] ! 1 = [test_project_config, test_project_config] ! 0
   \<and> get_prop ([test_project_config, test_project_config] ! 1) ''name'' = Str ''Test Project''
   \<and> get_prop ([test_project_config, test_project_config] ! 1) ''version'' = Str ''1.0.0''
   \<and> get_prop ([test_project_config, test_project_config] ! 1) ''environment'' = Str ''test''"
proof -
  let ?w = "\<lparr>heap = [test_project_config], console = []\<rparr>"
  let ?wa = "\<lparr>heap = [test_project_config, test_project_config], console = []\<rparr>"
  have g: "getConfig (createApexFramework 0) ?w = (1, ?wa)"
    by (simp add: getConfig_result createApexFramework_def new_ApexFramework_def)
  have v: "get_prop test_project_config ''name'' = Str ''Test Project''"
    "get_prop test_project_config ''version'' = Str ''1.0.0''"
    "get_prop test_project_config ''environment'' = Str ''test''"
    by (simp_all add: get_prop_def test_project_config_def)
  from construct_getConfig_equal [of 0 ?w 1 ?wa] g v show ?thesis
    by simp
qed

text \<open>
  C9. Two calls of \<open>getConfig()\<close> in a row return objects that are equal by value, both
  equal to the stored configuration; a call leaves the holder, the objects that were
  there before it and the console as they were.
\<close>

theorem getConfig_twice_equal:
  assumes "config this < length (heap w)"
    and "getConfig this w = (r1, wa)"
    and "getConfig this wa = (r2, wb)"
  shows "heap wb ! r1 = heap wb ! r2
         \<and> heap wb ! r2 = heap w ! config this
         \<and> take (length (heap w)) (heap wb) = heap w
         \<and> console wb = console w"
proof -
  from assms(2) have r1: "r1 = length (heap w)"
    and wa: "heap wa = heap w @ [heap w ! config this]" "console wa = console w"
    by (auto simp: getConfig_result)
  from assms(3) have r2: "r2 = length (heap wa)"
    and wb: "heap wb = heap wa @ [heap wa ! config this]" "console wb = console wa"
    by (auto simp: getConfig_result)
  from assms(1) r1 r2 wa wb show ?thesis
    by (simp add: nth_append)
qed

theorem getConfig_twice_equal_witness:
  "getConfig \<lparr>config = 0\<rparr> \<lparr>heap = [factory_config], console = []\<rparr>
     = (1, \<lparr>heap = [factory_config, factory_config], console = []\<rparr>)
   \<and> getConfig \<lparr>config = 0\<rparr> \<lparr>heap = [factory_config, factory_config], console = []\<rparr>
     = (2, \<lparr>heap = [factory_config, factory_config, factory_config], console = []\<rparr>)
   \<and> [factory_config, factory_config, factory_config] ! 1
     = [factory_config, factory_config, factory_config] ! 2"
proof -
  let ?w = "\<lparr>heap = [factory_config], console = []\<rparr>"
  let ?wa = "\<lparr>heap = [factory_config, factory_config], console = []\<rparr>"
  let ?wb = "\<lparr>heap = [factory_config, factory_config, factory_config], console = []\<rparr>"
  have g1: "getConfig \<lparr>config = 0\<rparr> ?w = (1, ?wa)"
    by (simp add: getConfig_result)
  have g2: "getConfig \<lparr>config = 0\<rparr> ?wa = (2, ?wb)"
    by (simp add: getConfig_result)
  from getConfig_twice_equal [of "\<lparr>config = 0\<rparr>" ?w 1 ?wa 2 ?wb] g1 g2 show ?thesis
    by simp
qed

text \<open>
  C4. \<open>getConfig()\<close> returns a fresh object, not the one the holder keeps: whatever the
  caller then does to the returned object, the stored configuration is as before and the
  next \<open>getConfig()\<close> returns, in another fresh object, what the first call returned.
\<close>

theorem getConfig_defensive_copy:
  assumes "config this < length (heap w)"
    and "getConfig this w = (r, wa)"
    and "getConfig this (mutate r g wa) = (r', wb)"
  shows "r \<noteq> config this
         \<and> r' \<noteq> r
         \<and> fst (getConfig this wa) \<noteq> r
         \<and> heap (mutate r g wa) ! config this = heap w ! config this
         \<and> heap wb ! r' = heap w ! config this
         \<and> heap wa ! r = heap w ! config this"
proof -
  from assms(2) have r: "r = length (heap w)"
    and wa: "heap wa = heap w @ [heap w ! config this]"
    by (auto simp: getConfig_result)
  have m: "heap (mutate r g wa) = heap w @ [g (heap w ! config this)]"
    by (simp add: mutate_def r wa)
  from assms(3) have r': "r' = length (heap (mutate r g wa))"
    and wb: "heap wb = heap (mutate r g wa) @ [heap (mutate r g wa) ! config this]"
    by (auto simp: getConfig_result)
  from assms(1) r wa m r' wb show ?thesis
    by (simp add: nth_append getConfig_result)
qed

text \<open>
  The example of C4: the caller overwrites \<open>name\<close> in the object it got from the holder of
  the \<open>Factory Test\<close> configuration; the next \<open>getConfig()\<close> still returns that
  configuration.
\<close>

theorem getConfig_defensive_copy_witness:
  "getConfig \<lparr>config = 0\<rparr> \<lparr>heap = [factory_config], console = []\<rparr>
     = (1, \<lparr>heap = [factory_config, factory_config], console = []\<rparr>)
   \<and> assign 1 ''name'' (Str ''Mutated'')
        \<lparr>heap = [factory_config, factory_config], console = []\<rparr>
     = \<lparr>heap = [factory_config, factory_config(''name'' \<mapsto> Str ''Mutated'')], console = []\<rparr>
   \<and> getConfig \<lparr>config = 0\<rparr>
        \<lparr>heap = [factory_config, factory_config(''name'' \<mapsto> Str ''Mutated'')], console = []\<rparr>
     = (2, \<lparr>heap = [factory_config, factory_config(''name'' \<mapsto> Str ''Mutated''),
                      factory_config], console = []\<rparr>)
   \<and> get_prop factory_config ''name'' = Str ''Factory Test''"
proof -
  let ?w = "\<lparr>heap = [factory_config], console = []\<rparr>"
  let ?wa = "\<lparr>heap = [factory_config, factory_config], console = []\<rparr>"
  let ?wm = "\<lparr>heap = [factory_config, factory_config(''name'' \<mapsto> Str ''Mutated'')],
              console = []\<rparr>"
  let ?wb = "\<lparr>heap = [factory_config, factory_config(''name'' \<mapsto> Str ''Mutated''),
                      factory_config], console = []\<rparr>"
  have g1: "getConfig \<lparr>config = 0\<rparr> ?w = (1, ?wa)"
    by (simp add: getConfig_result)
  have a: "mutate 1 (\<lambda>ob. ob(''name'' \<mapsto> Str ''Mutated'')) ?wa = ?wm"
    by (simp add: mutate_def)
  have g2: "getConfig \<lparr>config = 0\<rparr> ?wm = (2, ?wb)"
    by (simp add: getConfig_result)
  have p: "get_prop factory_config ''name'' = Str ''Factory Test''"
    by (simp add: get_prop_def factory_config_def)
  have "heap ?wb ! 2 = heap ?w ! 0"
    using getConfig_defensive_copy
      [of "\<lparr>config = 0\<rparr>" ?w 1 ?wa "\<lambda>ob. ob(''name'' \<mapsto> Str ''Mutated'')" 2 ?wb] g1 a g2
    by simp
  with g1 a g2 p show ?thesis
    by (simp add: assign_def)
qed

section \<open>The constructor\<close>

text \<open>
  C5 asks that the holder keep a copy of the object it is constructed with. The
  constructor stores the reference it is given, so the holder and the caller share one
  object: after \<open>c.name = "Mutated"\<close> on the caller's side, \<open>getConfig()\<close> returns the
  changed name, where before the assignment it returned \<open>"Factory Test"\<close>.
\<close>

theorem constructor_shares_reference:
  "config (createApexFramework 0) = 0
   \<and> getConfig (createApexFramework 0) \<lparr>heap = [factory_config], console = []\<rparr>
     = (1, \<lparr>heap = [factory_config, factory_config], console = []\<rparr>)
   \<and> get_prop factory_config ''name'' = Str ''Factory Test''
   \<and> getConfig (createApexFramework 0)
        (assign 0 ''name'' (Str ''Mutated'') \<lparr>heap = [factory_config], console = []\<rparr>)
     = (1, \<lparr>heap = [factory_config(''name'' \<mapsto> Str ''Mutated''),
                      factory_config(''name'' \<mapsto> Str ''Mutated'')], console = []\<rparr>)
   \<and> get_prop (factory_config(''name'' \<mapsto> Str ''Mutated'')) ''name'' = Str ''Mutated''"
  by (simp add: getConfig_result createApexFramework_def new_ApexFramework_def
      assign_def mutate_def get_prop_def factory_config_def)

section \<open>initialize\<close>

text \<open>
  C3. \<open>initialize()\<close> appends exactly three lines to the console, in this order: the
  banner with the current version, the \<open>Project\<close> line with the current name, the
  \<open>Environment\<close> line with the current environment (each line opens with its emoji).
  The values are those of the configuration held at the time of the call: after an
  \<open>updateConfig\<close>, the lines show the merged configuration.
\<close>

theorem initialize_three_lines:
  assumes "updateConfig this updates w = (this', wa)"
  shows "console (initialize this w) = console w @
           [rocket @ '' APEX Enhanced Framework v''
              @ to_string (get_prop (heap w ! config this) ''version'') @ '' initialized'',
            clipboard @ '' Project: '' @ to_string (get_prop (heap w ! config this) ''name''),
            globe @ '' Environment: ''
              @ to_string (get_prop (heap w ! config this) ''environment'')]
         \<and> console (initialize this' wa) = console w @
           [rocket @ '' APEX Enhanced Framework v''
              @ to_string (get_prop ((heap w ! config this) ++ (heap w ! updates)) ''version'')
              @ '' initialized'',
            clipboard @ '' Project: ''
              @ to_string (get_prop ((heap w ! config this) ++ (heap w ! updates)) ''name''),
            globe @ '' Environment: ''
              @ to_string (get_prop ((heap w ! config this) ++ (heap w ! updates))
                             ''environment'')]"
proof -
  have lines: "console (initialize t v) = console v @
           [rocket @ '' APEX Enhanced Framework v''
              @ to_string (get_prop (heap v ! config t) ''version'') @ '' initialized'',
            clipboard @ '' Project: '' @ to_string (get_prop (heap v ! config t) ''name''),
            globe @ '' Environment: ''
              @ to_string (get_prop (heap v ! config t) ''environment'')]" for t v
    by (simp add: initialize_def console_log_def this_config_def Let_def)
  from assms have "config this' = length (heap w)"
    and "heap wa = heap w @ [(heap w ! config this) ++ (heap w ! updates)]"
    and "console wa = console w"
    by (auto simp: updateConfig_result)
  then have "heap wa ! config this' = (heap w ! config this) ++ (heap w ! updates)"
    and "console wa = console w"
    by simp_all
  with lines [of this w] lines [of this' wa] show ?thesis
    by simp
qed

text \<open>
  The example of C3: the holder of \<open>{name: "Test Project", version: "1.0.0",
  environment: "test"}\<close> writes the three lines the specification gives, and after
  \<open>updateConfig({name: "Updated Project", version: "2.0.0"})\<close> the new name and version
  with the environment it had.
\<close>

theorem initialize_three_lines_witness:
  "updateConfig (createApexFramework 0) 1
     \<lparr>heap = [test_project_config, updated_partial], console = []\<rparr>
     = (\<lparr>config = 2\<rparr>,
        \<lparr>heap = [test_project_config, updated_partial, test_project_config ++ updated_partial],
         console = []\<rparr>)
   \<and> console (initialize (createApexFramework 0)
        \<lparr>heap = [test_project_config, updated_partial], console = []\<rparr>)
     = [rocket @ '' APEX Enhanced Framework v1.0.0 initialized'',
        clipboard @ '' Project: Test Project'',
        globe @ '' Environment: test'']
   \<and> console (initialize \<lparr>config = 2\<rparr>
        \<lparr>heap = [test_project_config, updated_partial, test_project_config ++ updated_partial],
         console = []\<rparr>)
     = [rocket @ '' APEX Enhanced Framework v2.0.0 initialized'',
        clipboard @ '' Project: Updated Project'',
        globe @ '' Environment: test'']"
proof -
  let ?w = "\<lparr>heap = [test_project_config, updated_partial], console = []\<rparr>"
  let ?wa = "\<lparr>heap = [test_project_config, updated_partial,
                      test_project_config ++ updated_partial], console = []\<rparr>"
  have u: "updateConfig (createApexFramework 0) 1 ?w = (\<lparr>config = 2\<rparr>, ?wa)"
    by (simp add: updateConfig_result createApexFramework_def new_ApexFramework_def)
  have v: "get_prop test_project_config ''name'' = Str ''Test Project''"
    "get_prop test_project_config ''version'' = Str ''1.0.0''"
    "get_prop test_project_config ''environment'' = Str ''test''"
    "get_prop (test_project_config ++ updated_partial) ''name'' = Str ''Updated Project''"
    "get_prop (test_project_config ++ updated_partial) ''version'' = Str ''2.0.0''"
    "get_prop (test_project_config ++ updated_partial) ''environment'' = Str ''test''"
    by (simp_all add: get_prop_def test_project_config_def updated_partial_def)
  from initialize_three_lines [of "createApexFramework 0" 1 ?w "\<lparr>config = 2\<rparr>" ?wa] u v
  show ?thesis
    by (simp add: createApexFramework_def new_ApexFramework_def)
qed

text \<open>
  C7. \<open>initialize()\<close> leaves the holder and every object as they were (it has no result:
  the model returns the store only, in which the console alone has grown), so
  \<open>getConfig()\<close> after it returns what \<open>getConfig()\<close> returned before it.
\<close>

theorem initialize_no_mutation:
  assumes "config this < length (heap w)"
    and "getConfig this w = (r0, wa)"
    and "getConfig this (initialize this wa) = (r1, wb)"
  shows "heap (initialize this wa) = heap wa \<and> heap wb ! r1 = heap wb ! r0"
proof -
  from assms(2) have r0: "r0 = length (heap w)"
    and wa: "heap wa = heap w @ [heap w ! config this]"
    by (auto simp: getConfig_result)
  from assms(3) have r1: "r1 = length (heap wa)"
    and wb: "heap wb = heap wa @ [heap wa ! config this]"
    by (auto simp: getConfig_result initialize_heap)
  from assms(1) r0 r1 wa wb show ?thesis
    by (simp add: nth_append initialize_heap)
qed

theorem initialize_no_mutation_witness:
  "getConfig \<lparr>config = 0\<rparr> \<lparr>heap = [test_project_config], console = []\<rparr>
     = (1, \<lparr>heap = [test_project_config, test_project_config], console = []\<rparr>)
   \<and> initialize \<lparr>config = 0\<rparr>
        \<lparr>heap = [test_project_config, test_project_config], console = []\<rparr>
     = \<lparr>heap = [test_project_config, test_project_config],
        console = [rocket @ '' APEX Enhanced Framework v1.0.0 initialized'',
                   clipboard @ '' Project: Test Project'',
                   globe @ '' Environment: test'']\<rparr>
   \<and> getConfig \<lparr>config = 0\<rparr>
        \<lparr>heap = [test_project_config, test_project_config],
         console = [rocket @ '' APEX Enhanced Framework v1.0.0 initialized'',
                    clipboard @ '' Project: Test Project'',
                    globe @ '' Environment: test'']\<rparr>
     = (2, \<lparr>heap = [test_project_config, test_project_config, test_project_config],
           console = [rocket @ '' APEX Enhanced Framework v1.0.0 initialized'',
                      clipboard @ '' Project: Test Project'',
                      globe @ '' Environment: test'']\<rparr>)
   \<and> [test_project_config, test_project_config, test_project_config] ! 2
     = [test_project_config, test_project_config, test_project_config] ! 1"
proof -
  let ?out = "[rocket @ '' APEX Enhanced Framework v1.0.0 initialized'',
               clipboard @ '' Project: Test Project'',
               globe @ '' Environment: test'']"
  let ?w = "\<lparr>heap = [test_project_config], console = []\<rparr>"
  let ?wa = "\<lparr>heap = [test_project_config, test_project_config], console = []\<rparr>"
  let ?wi = "\<lparr>heap = [test_project_config, test_project_config], console = ?out\<rparr>"
  let ?wb = "\<lparr>heap = [test_project_config, test_project_config, test_project_config],
              console = ?out\<rparr>"
  have g0: "getConfig \<lparr>config = 0\<rparr> ?w = (1, ?wa)"
    by (simp add: getConfig_result)
  have v: "get_prop test_project_config ''name'' = Str ''Test Project''"
    "get_prop test_project_config ''version'' = Str ''1.0.0''"
    "get_prop test_project_config ''environment'' = Str ''test''"
    by (simp_all add: get_prop_def test_project_config_def)
  have i: "initialize \<lparr>config = 0\<rparr> ?wa = ?wi"
    by (simp add: initialize_def console_log_def this_config_def Let_def v)
  have g1: "getConfig \<lparr>config = 0\<rparr> ?wi = (2, ?wb)"
    by (simp add: getConfig_result)
  from initialize_no_mutation [of "\<lparr>config = 0\<rparr>" ?w 1 ?wa 2 ?wb] g0 i g1 show ?thesis
    by simp
qed

end
